theory Spec2Isabelle
  imports Complex_Main
begin

section \<open>Data model (types.ts)\<close>

text \<open>
  The interfaces of types.ts as records. JavaScript numbers that the game only ever
  uses as whole numbers (scores, point values, epoch milliseconds, countdowns) are
  \<open>int\<close>; an optional field \<open>f?: T\<close> is \<open>T option\<close> with \<open>None\<close> for
  \<open>undefined\<close>. Field names carry a prefix where two interfaces share a name
  (\<open>id\<close>, \<open>buzzerLockUntil\<close>) or where the name is taken in HOL.
\<close>

datatype Status = LOBBY | INTRO | PLAYING | QUESTION_ACTIVE | BUZZED | REVEAL | FINISHED

record Question =
  q_id :: string
  q_value :: int
  question :: string
  answer :: string
  isAnswered :: bool
  category :: string
  isGolden :: "bool option"
  isRed :: "bool option"

record Category =
  title :: string
  questions :: "Question list"

record Player =
  p_id :: string
  p_name :: string
  score :: int
  isBuzzed :: bool
  buzzTime :: "int option"
  p_buzzerLockUntil :: "int option"

record GameState =
  roomCode :: string
  status :: Status
  activeQuestion :: "Question option"
  activePlayerId :: "string option"
  players :: "Player list"
  categories :: "Category list"
  theme :: string
  timer :: int
  buzzerLockUntil :: "int option"
  revealTimer :: "int option"
  isHostControllerConnected :: "bool option"

text \<open>
  The payload of a HOST\_ACTION message: \<open>{action, ...}\<close>. CORRECT and INCORRECT
  carry the \<open>playerId\<close> the controller puts into the payload (it may be undefined);
  \<open>OTHER_ACTION\<close> stands for an action string that no branch of the host compares
  against.
\<close>

datatype HostAction =
    START_GAME
  | SELECT_QUESTION string
  | CORRECT "string option"
  | INCORRECT "string option"
  | CONTINUE
  | SKIP
  | RELEASE_BUZZER
  | RENAME_PLAYER string string
  | OVERRIDE_SCORE string int
  | KICK_PLAYER string
  | OTHER_ACTION string

text \<open>
  \<open>SyncMessage = {type, payload, senderId}\<close> as a tagged union: one constructor per
  \<open>type\<close>, carrying the payload of that type and, last, \<open>senderId\<close>.
\<close>

datatype SyncMessage =
    UPDATE_STATE GameState string
  | PLAYER_JOIN Player string
  | BUZZ string
  | SUBMIT_ANSWER string
  | NEXT_TURN string
  | HOST_ACTION HostAction string
  | BUZZ_LOCKED_ATTEMPT string
  | RELEASE_BUZZER_MSG string
  | REJECTED string string
  | KICKED string string

fun senderId :: "SyncMessage \<Rightarrow> string" where
  "senderId (UPDATE_STATE _ s) = s"
| "senderId (PLAYER_JOIN _ s) = s"
| "senderId (BUZZ s) = s"
| "senderId (SUBMIT_ANSWER s) = s"
| "senderId (NEXT_TURN s) = s"
| "senderId (HOST_ACTION _ s) = s"
| "senderId (BUZZ_LOCKED_ATTEMPT s) = s"
| "senderId (RELEASE_BUZZER_MSG s) = s"
| "senderId (REJECTED _ s) = s"
| "senderId (KICKED _ s) = s"

section \<open>JavaScript truthiness\<close>

text \<open>
  The guards of the host test optional fields by truthiness: \<open>!x\<close> and \<open>x && ...\<close>.
  An undefined value is falsy, and so are the empty string, the number 0 and false.
\<close>

definition truthy_string :: "string option \<Rightarrow> bool" where
  "truthy_string v = (case v of None \<Rightarrow> False | Some s \<Rightarrow> s \<noteq> [])"

definition truthy_number :: "int option \<Rightarrow> bool" where
  "truthy_number v = (case v of None \<Rightarrow> False | Some n \<Rightarrow> n \<noteq> 0)"

definition truthy_flag :: "bool option \<Rightarrow> bool" where
  "truthy_flag v = (case v of None \<Rightarrow> False | Some b \<Rightarrow> b)"

text \<open>The lock test \<open>lockUntil && now < lockUntil\<close> of both buzzer locks.\<close>

definition lockActive :: "int \<Rightarrow> int option \<Rightarrow> bool" where
  "lockActive now lockUntil =
     (case lockUntil of None \<Rightarrow> False | Some t \<Rightarrow> t \<noteq> 0 \<and> now < t)"

section \<open>Transport (services/gameSync.ts, host side)\<close>

text \<open>
  A PeerJS data connection as the host sees it: the remote peer id \<open>conn.peer\<close> and
  whether the channel is open. The peer id is assigned by the signalling server when the
  client calls \<open>new Peer(PEER_CONFIG)\<close>; the player id is a different string, drawn by
  \<open>initPlayer\<close> with \<open>Math.random().toString(36).substring(7)\<close> and sent inside
  PLAYER\_JOIN.
\<close>

record DataConnection =
  peer :: string
  conn_open :: bool

type_synonym Sent = "(string \<times> SyncMessage) list"

text \<open>\<open>sendToPeer\<close>: the first connection whose peer id is \<open>peerId\<close>, if it is open.\<close>

definition sendToPeer :: "DataConnection list \<Rightarrow> string \<Rightarrow> SyncMessage \<Rightarrow> Sent" where
  "sendToPeer conns peerId msg =
     (case find (\<lambda>c. peer c = peerId) conns of
        None \<Rightarrow> []
      | Some conn \<Rightarrow> if conn_open conn then [(peer conn, msg)] else [])"

text \<open>\<open>broadcastState\<close>: an UPDATE\_STATE snapshot to every open connection.\<close>

definition broadcastState :: "DataConnection list \<Rightarrow> GameState \<Rightarrow> Sent" where
  "broadcastState conns state =
     map (\<lambda>conn. (peer conn, UPDATE_STATE state ''HOST'')) (filter conn_open conns)"

section \<open>The host component (components/HostView.tsx)\<close>

text \<open>
  The state of the host component: the React state \<open>gameState\<close> (null until
  \<open>initGame\<close> has built the board), the ref \<open>hostControllerPeerIdRef\<close>, the intro
  cursor, and the module-level connection list of gameSync.ts. Each handler runs to
  completion on the one thread, and \<open>gameStateRef.current\<close> is the state it starts
  from, so a handler is a function from the host state to the next host state and the
  messages it sent with \<open>sendToPeer\<close>.
\<close>

record Host =
  gameState :: "GameState option"
  hostControllerPeerIdRef :: "string option"
  introPlayerIndex :: int
  connections :: "DataConnection list"

text \<open>
  \<open>setGameState(prev => ...)\<close>, and \<open>updateAndBroadcast(partial)\<close>, which merges the
  partial state into \<open>prev\<close> and leaves a null state null. The partial state is given
  as the function that writes its fields.
\<close>

definition setGameState :: "(GameState \<Rightarrow> GameState) \<Rightarrow> Host \<Rightarrow> Host" where
  "setGameState f h = h\<lparr>gameState := map_option f (gameState h)\<rparr>"

definition updateAndBroadcast :: "(GameState \<Rightarrow> GameState) \<Rightarrow> Host \<Rightarrow> Host" where
  "updateAndBroadcast partial h =
     (case gameState h of None \<Rightarrow> h | Some prev \<Rightarrow> h\<lparr>gameState := Some (partial prev)\<rparr>)"

text \<open>The multiplier of CORRECT and INCORRECT: 5 for a red question, else 2 for a golden one.\<close>

definition multiplier :: "Question \<Rightarrow> int" where
  "multiplier q = (if truthy_flag (isRed q) then 5 else if truthy_flag (isGolden q) then 2 else 1)"

definition points :: "Question \<Rightarrow> int" where
  "points q = q_value q * multiplier q"

text \<open>The three list updates that CORRECT, INCORRECT and SKIP compute.\<close>

definition playersCorrect :: "string option \<Rightarrow> Question \<Rightarrow> Player list \<Rightarrow> Player list" where
  "playersCorrect active aq ps =
     map (\<lambda>p. if Some (p_id p) = active
               then p\<lparr>score := score p + points aq, isBuzzed := False\<rparr>
               else p\<lparr>isBuzzed := False\<rparr>) ps"

definition playersIncorrect :: "string option \<Rightarrow> Question \<Rightarrow> Player list \<Rightarrow> Player list" where
  "playersIncorrect active aq ps =
     map (\<lambda>p. if Some (p_id p) = active
               then p\<lparr>score := score p - points aq, isBuzzed := False\<rparr>
               else p) ps"

definition markAnswered :: "Question \<Rightarrow> Category list \<Rightarrow> Category list" where
  "markAnswered aq cats =
     map (\<lambda>cat. cat\<lparr>questions :=
            map (\<lambda>q. if q_id q = q_id aq then q\<lparr>isAnswered := True\<rparr> else q) (questions cat)\<rparr>) cats"

definition allAnswered :: "GameState \<Rightarrow> bool" where
  "allAnswered g = list_all (\<lambda>cat. list_all isAnswered (questions cat)) (categories g)"

subsection \<open>Handlers of the component\<close>

text \<open>
  A handler that reads the component-level variable \<open>gameState\<close> sees the value of the
  render that created the handler; it takes that value as its first argument \<open>gs\<close>.
  What it writes goes through \<open>updateAndBroadcast\<close> into the current state.
\<close>

definition startGame :: "GameState option \<Rightarrow> Host \<Rightarrow> Host" where
  "startGame gs h =
     (case gs of
        None \<Rightarrow> h
      | Some g \<Rightarrow> (updateAndBroadcast (\<lambda>prev. prev\<lparr>status := INTRO\<rparr>) h)\<lparr>introPlayerIndex := 0\<rparr>)"

definition selectQuestion :: "int \<Rightarrow> Question \<Rightarrow> Host \<Rightarrow> Host" where
  "selectQuestion now q h =
     setGameState (\<lambda>prev.
       if status prev \<noteq> PLAYING then prev
       else prev\<lparr>status := QUESTION_ACTIVE, activeQuestion := Some q, timer := 30,
                 buzzerLockUntil := Some (now + 1000 * 60 * 60)\<rparr>) h"

definition handleCorrect :: "GameState option \<Rightarrow> Host \<Rightarrow> Host" where
  "handleCorrect gs h =
     (case gs of
        None \<Rightarrow> h
      | Some g \<Rightarrow>
         (case activeQuestion g of
            None \<Rightarrow> h
          | Some aq \<Rightarrow>
             if \<not> truthy_string (activePlayerId g) \<or> status g \<noteq> QUESTION_ACTIVE then h
             else updateAndBroadcast (\<lambda>prev. prev\<lparr>
                    status := REVEAL,
                    players := playersCorrect (activePlayerId g) aq (players g),
                    categories := markAnswered aq (categories g),
                    activePlayerId := activePlayerId g,
                    revealTimer := Some 5\<rparr>) h))"

definition handleIncorrect :: "int \<Rightarrow> GameState option \<Rightarrow> Host \<Rightarrow> Host" where
  "handleIncorrect now gs h =
     (case gs of
        None \<Rightarrow> h
      | Some g \<Rightarrow>
         (case activeQuestion g of
            None \<Rightarrow> h
          | Some aq \<Rightarrow>
             if \<not> truthy_string (activePlayerId g) then h
             else updateAndBroadcast (\<lambda>prev. prev\<lparr>
                    status := QUESTION_ACTIVE,
                    players := playersIncorrect (activePlayerId g) aq (players g),
                    activePlayerId := None,
                    timer := 30,
                    buzzerLockUntil := Some (now + 1000 * 60 * 60)\<rparr>) h))"

definition skipQuestion :: "GameState option \<Rightarrow> Host \<Rightarrow> Host" where
  "skipQuestion gs h =
     (case gs of
        None \<Rightarrow> h
      | Some g \<Rightarrow>
         (case activeQuestion g of
            None \<Rightarrow> h
          | Some aq \<Rightarrow>
             updateAndBroadcast (\<lambda>prev. prev\<lparr>
               status := REVEAL,
               categories := markAnswered aq (categories g),
               activePlayerId := None\<rparr>) h))"

definition finishReveal :: "GameState option \<Rightarrow> Host \<Rightarrow> Host" where
  "finishReveal gs h =
     (if (case gs of None \<Rightarrow> False | Some g \<Rightarrow> allAnswered g)
      then updateAndBroadcast (\<lambda>prev. prev\<lparr>
             status := FINISHED, activeQuestion := None, activePlayerId := None\<rparr>) h
      else updateAndBroadcast (\<lambda>prev. prev\<lparr>
             status := PLAYING, activeQuestion := None, activePlayerId := None\<rparr>) h)"

subsection \<open>\<open>handlePeerMessage\<close>\<close>

text \<open>
  The SELECT\_QUESTION lookup: \<open>forEach\<close> over the categories, so the last category
  holding a question with the id wins, with the first such question inside it.
\<close>

definition findQuestion :: "string \<Rightarrow> Category list \<Rightarrow> Question option" where
  "findQuestion questionId cats =
     foldl (\<lambda>targetQ cat.
              case find (\<lambda>q. q_id q = questionId) (questions cat) of
                None \<Rightarrow> targetQ
              | Some q \<Rightarrow> Some q) None cats"

text \<open>
  The case PLAYER\_JOIN. A payload named HOST\_CONTROLLER is never added to the players;
  it is rejected when the controller ref holds another peer id, and takes the slot
  otherwise.
\<close>

definition onPlayerJoin :: "Player \<Rightarrow> string \<Rightarrow> GameState \<Rightarrow> Host \<Rightarrow> Host \<times> Sent" where
  "onPlayerJoin newPlayer senderPeerId currentState h =
     (if p_name newPlayer = ''HOST_CONTROLLER'' then
        (if truthy_string (hostControllerPeerIdRef h)
            \<and> hostControllerPeerIdRef h \<noteq> Some senderPeerId
         then (h, sendToPeer (connections h) senderPeerId
                    (REJECTED ''Another host controller is already connected.'' ''HOST''))
         else (updateAndBroadcast (\<lambda>prev. prev\<lparr>isHostControllerConnected := Some True\<rparr>)
                 (h\<lparr>hostControllerPeerIdRef := Some senderPeerId\<rparr>), []))
      else if find (\<lambda>p. p_id p = p_id newPlayer) (players currentState) = None
      then (updateAndBroadcast (\<lambda>prev. prev\<lparr>players := players currentState @ [newPlayer]\<rparr>) h, [])
      else (h, []))"

text \<open>The case BUZZ: the personal lock of the sender is checked first, then the global lock.\<close>

definition onBuzz :: "int \<Rightarrow> string \<Rightarrow> GameState \<Rightarrow> Host \<Rightarrow> Host \<times> Sent" where
  "onBuzz now sid currentState h =
     (if status currentState = QUESTION_ACTIVE \<and> \<not> truthy_string (activePlayerId currentState)
      then
        (let player = find (\<lambda>p. p_id p = sid) (players currentState) in
         if (case player of
               None \<Rightarrow> False
             | Some p \<Rightarrow> lockActive now (p_buzzerLockUntil p))
         then (h, [])
         else if lockActive now (buzzerLockUntil currentState)
         then (h, [])
         else (updateAndBroadcast (\<lambda>prev. prev\<lparr>activePlayerId := Some sid\<rparr>) h, []))
      else (h, []))"

text \<open>The case BUZZ\_LOCKED\_ATTEMPT: a fixed penalty of 2000 ms from now.\<close>

definition onBuzzLockedAttempt :: "int \<Rightarrow> string \<Rightarrow> GameState \<Rightarrow> Host \<Rightarrow> Host \<times> Sent" where
  "onBuzzLockedAttempt now sid currentState h =
     (updateAndBroadcast (\<lambda>prev. prev\<lparr>players :=
        map (\<lambda>p. if p_id p = sid then p\<lparr>p_buzzerLockUntil := Some (now + 2000)\<rparr> else p)
            (players currentState)\<rparr>) h, [])"

text \<open>
  The case HOST\_ACTION, one equation per branch of the if-chain, in its order. No
  branch reads \<open>msg.senderId\<close> or \<open>senderPeerId\<close>. START\_GAME and SKIP call the
  component's \<open>startGame\<close> and \<open>skipQuestion\<close>, which read the component-level
  \<open>gameState\<close> that the handler was created with: the argument \<open>gs\<close>.
\<close>

fun onHostAction :: "GameState option \<Rightarrow> int \<Rightarrow> HostAction \<Rightarrow> GameState \<Rightarrow> Host \<Rightarrow> Host \<times> Sent" where
  "onHostAction gs now (CORRECT pl) currentState h =
     (case activeQuestion currentState of
        None \<Rightarrow> (h, [])
      | Some aq \<Rightarrow>
         if \<not> truthy_string (activePlayerId currentState) then (h, [])
         else (updateAndBroadcast (\<lambda>prev. prev\<lparr>
                 status := REVEAL,
                 players := playersCorrect (activePlayerId currentState) aq (players currentState),
                 categories := markAnswered aq (categories currentState),
                 activePlayerId := activePlayerId currentState,
                 revealTimer := Some 5\<rparr>) h, []))"
| "onHostAction gs now (INCORRECT pl) currentState h =
     (case activeQuestion currentState of
        None \<Rightarrow> (h, [])
      | Some aq \<Rightarrow>
         if \<not> truthy_string (activePlayerId currentState) then (h, [])
         else (updateAndBroadcast (\<lambda>prev. prev\<lparr>
                 status := QUESTION_ACTIVE,
                 players := playersIncorrect (activePlayerId currentState) aq (players currentState),
                 activePlayerId := None,
                 timer := 30,
                 buzzerLockUntil := Some (now + 1000 * 60 * 60)\<rparr>) h, []))"
| "onHostAction gs now CONTINUE currentState h =
     (if allAnswered currentState
      then (updateAndBroadcast (\<lambda>prev. prev\<lparr>
              status := FINISHED, activeQuestion := None, activePlayerId := None\<rparr>) h, [])
      else (updateAndBroadcast (\<lambda>prev. prev\<lparr>
              status := PLAYING, activeQuestion := None, activePlayerId := None\<rparr>) h, []))"
| "onHostAction gs now (SELECT_QUESTION questionId) currentState h =
     (case findQuestion questionId (categories currentState) of
        None \<Rightarrow> (h, [])
      | Some targetQ \<Rightarrow>
         if \<not> isAnswered targetQ \<and> status currentState = PLAYING
         then (selectQuestion now targetQ h, [])
         else (h, []))"
| "onHostAction gs now (RENAME_PLAYER playerId newName) currentState h =
     (updateAndBroadcast (\<lambda>prev. prev\<lparr>players :=
        map (\<lambda>p. if p_id p = playerId then p\<lparr>p_name := newName\<rparr> else p)
            (players currentState)\<rparr>) h, [])"
| "onHostAction gs now (OVERRIDE_SCORE playerId newScore) currentState h =
     (updateAndBroadcast (\<lambda>prev. prev\<lparr>players :=
        map (\<lambda>p. if p_id p = playerId then p\<lparr>score := newScore\<rparr> else p)
            (players currentState)\<rparr>) h, [])"
| "onHostAction gs now (KICK_PLAYER playerToKickId) currentState h =
     (updateAndBroadcast (\<lambda>prev. prev\<lparr>players :=
        filter (\<lambda>p. p_id p \<noteq> playerToKickId) (players currentState)\<rparr>) h,
      sendToPeer (connections h) playerToKickId
        (KICKED ''You have been kicked by the host.'' ''HOST''))"
| "onHostAction gs now START_GAME currentState h = (startGame gs h, [])"
| "onHostAction gs now SKIP currentState h = (skipQuestion gs h, [])"
| "onHostAction gs now RELEASE_BUZZER currentState h =
     (updateAndBroadcast (\<lambda>prev. prev\<lparr>buzzerLockUntil := Some 0\<rparr>) h, [])"
| "onHostAction gs now (OTHER_ACTION a) currentState h = (h, [])"

text \<open>
  \<open>handlePeerMessage(msg, senderPeerId)\<close>, with \<open>now\<close> the value of \<open>Date.now()\<close>
  during the call. A message type without a case in the switch does nothing.
\<close>

definition handlePeerMessage ::
  "GameState option \<Rightarrow> int \<Rightarrow> SyncMessage \<Rightarrow> string \<Rightarrow> Host \<Rightarrow> Host \<times> Sent" where
  "handlePeerMessage gs now msg senderPeerId h =
     (case gameState h of
        None \<Rightarrow> (h, [])
      | Some currentState \<Rightarrow>
         (case msg of
            PLAYER_JOIN newPlayer sid \<Rightarrow> onPlayerJoin newPlayer senderPeerId currentState h
          | BUZZ sid \<Rightarrow> onBuzz now sid currentState h
          | BUZZ_LOCKED_ATTEMPT sid \<Rightarrow> onBuzzLockedAttempt now sid currentState h
          | HOST_ACTION a sid \<Rightarrow> onHostAction gs now a currentState h
          | _ \<Rightarrow> (h, [])))"

subsection \<open>Effects and the connection callbacks\<close>

text \<open>
  The countdown effect of the question: one firing of the interval takes a second off,
  and the run of the effect at \<open>timer === 0\<close> skips the question.
\<close>

definition questionTimerEffect :: "Host \<Rightarrow> Host" where
  "questionTimerEffect h =
     (case gameState h of
        None \<Rightarrow> h
      | Some g \<Rightarrow>
         if status g = QUESTION_ACTIVE \<and> timer g > 0 \<and> \<not> truthy_string (activePlayerId g)
         then setGameState (\<lambda>prev. prev\<lparr>timer := timer prev - 1\<rparr>) h
         else if status g = QUESTION_ACTIVE \<and> timer g = 0 \<and> \<not> truthy_string (activePlayerId g)
         then skipQuestion (gameState h) h
         else h)"

definition revealTimerEffect :: "Host \<Rightarrow> Host" where
  "revealTimerEffect h =
     (case gameState h of
        None \<Rightarrow> h
      | Some g \<Rightarrow>
         if status g = REVEAL \<and> truthy_number (revealTimer g)
            \<and> (case revealTimer g of None \<Rightarrow> False | Some t \<Rightarrow> t > 0)
         then setGameState (\<lambda>prev.
                if status prev \<noteq> REVEAL \<or> \<not> truthy_number (revealTimer prev) then prev
                else (case revealTimer prev of
                        None \<Rightarrow> prev
                      | Some t \<Rightarrow> (let nextVal = t - 1 in
                                   if nextVal = 0 then prev\<lparr>revealTimer := Some 0\<rparr>
                                   else prev\<lparr>revealTimer := Some nextVal\<rparr>))) h
         else if status g = REVEAL \<and> revealTimer g = Some 0
         then finishReveal (gameState h) h
         else h)"

text \<open>The intro sequence: the cursor steps through the players, then the board opens.\<close>

definition introEffect :: "Host \<Rightarrow> Host" where
  "introEffect h =
     (case gameState h of
        None \<Rightarrow> h
      | Some g \<Rightarrow>
         if status g = INTRO \<and> introPlayerIndex h \<ge> 0 then
           (if introPlayerIndex h < int (length (players g))
            then h\<lparr>introPlayerIndex := introPlayerIndex h + 1\<rparr>
            else (updateAndBroadcast (\<lambda>prev. prev\<lparr>status := PLAYING\<rparr>) h)\<lparr>introPlayerIndex := - 1\<rparr>)
         else h)"

text \<open>The disconnect callback that \<open>initGame\<close> hands to \<open>initHost\<close>.\<close>

definition onDisconnect :: "string \<Rightarrow> Host \<Rightarrow> Host" where
  "onDisconnect disconnectedPeerId h =
     (if Some disconnectedPeerId = hostControllerPeerIdRef h
      then updateAndBroadcast (\<lambda>prev. prev\<lparr>isHostControllerConnected := Some False\<rparr>)
             (h\<lparr>hostControllerPeerIdRef := None\<rparr>)
      else h)"

text \<open>The Reset Controller button.\<close>

definition resetController :: "Host \<Rightarrow> Host" where
  "resetController h =
     updateAndBroadcast (\<lambda>prev. prev\<lparr>isHostControllerConnected := Some False\<rparr>)
       (h\<lparr>hostControllerPeerIdRef := None\<rparr>)"

text \<open>The name and score inputs of the scoreboard, for the player shown at position \<open>i\<close>.\<close>

definition nameBlur :: "nat \<Rightarrow> string \<Rightarrow> GameState \<Rightarrow> Host \<Rightarrow> Host" where
  "nameBlur i v g h =
     (if i < length (players g) \<and> v \<noteq> p_name (players g ! i)
      then updateAndBroadcast (\<lambda>prev. prev\<lparr>players :=
             map (\<lambda>pl. if p_id pl = p_id (players g ! i) then pl\<lparr>p_name := v\<rparr> else pl)
                 (players g)\<rparr>) h
      else h)"

definition scoreBlur :: "nat \<Rightarrow> int \<Rightarrow> GameState \<Rightarrow> Host \<Rightarrow> Host" where
  "scoreBlur i val g h =
     (if i < length (players g) \<and> val \<noteq> score (players g ! i)
      then updateAndBroadcast (\<lambda>prev. prev\<lparr>players :=
             map (\<lambda>pl. if p_id pl = p_id (players g ! i) then pl\<lparr>score := val\<rparr> else pl)
                 (players g)\<rparr>) h
      else h)"

subsection \<open>Everything that can happen to the host\<close>

text \<open>
  The events of the host: a message on a connection, a connection arriving or closing,
  the buttons and inputs of the host screen, and the three timers. A button exists only
  in the render of the phase that shows it, so its event does nothing elsewhere.
\<close>

datatype Event =
    Message SyncMessage string
  | Connection DataConnection
  | ConnectionClosed nat
  | StartGameClick
  | QuestionClick nat nat
  | CorrectClick
  | IncorrectClick
  | SkipClick
  | ContinueClick
  | ResetControllerClick
  | NameBlur nat string
  | ScoreBlur nat int
  | QuestionTimer
  | RevealTimer
  | IntroTimer

text \<open>
  What the host screen offers in state \<open>g\<close>: the conditions under which the JSX renders
  the control (and does not disable it).
\<close>

fun offered :: "Event \<Rightarrow> GameState \<Rightarrow> bool" where
  "offered StartGameClick g = (status g = LOBBY \<and> players g \<noteq> [])"
| "offered (QuestionClick c i) g =
     (status g = PLAYING \<and> c < length (categories g) \<and> i < length (questions (categories g ! c))
      \<and> \<not> isAnswered (questions (categories g ! c) ! i))"
| "offered CorrectClick g =
     (status g = QUESTION_ACTIVE \<and> activeQuestion g \<noteq> None \<and> truthy_string (activePlayerId g))"
| "offered IncorrectClick g =
     (status g = QUESTION_ACTIVE \<and> activeQuestion g \<noteq> None \<and> truthy_string (activePlayerId g))"
| "offered SkipClick g = (status g = QUESTION_ACTIVE \<and> activeQuestion g \<noteq> None)"
| "offered ContinueClick g = (status g = REVEAL \<and> activeQuestion g \<noteq> None)"
| "offered ResetControllerClick g = truthy_flag (isHostControllerConnected g)"
| "offered (NameBlur i v) g = (i < length (players g))"
| "offered (ScoreBlur i val) g = (i < length (players g))"
| "offered e g = True"

text \<open>
  One event, once it is enabled (see \<open>host_step\<close> below). \<open>gs\<close> is the
  component-level \<open>gameState\<close> inside \<open>handlePeerMessage\<close>; the buttons and
  effects belong to the current render and read the current state.
\<close>

fun dispatch :: "GameState option \<Rightarrow> int \<Rightarrow> Event \<Rightarrow> Host \<Rightarrow> Host \<times> Sent" where
  "dispatch gs now (Message msg senderPeerId) h = handlePeerMessage gs now msg senderPeerId h"
| "dispatch gs now (Connection conn) h = (h\<lparr>connections := connections h @ [conn]\<rparr>, [])"
| "dispatch gs now (ConnectionClosed n) h =
     (if n < length (connections h)
      then (onDisconnect (peer (connections h ! n))
              (h\<lparr>connections := take n (connections h) @ drop (Suc n) (connections h)\<rparr>), [])
      else (h, []))"
| "dispatch gs now StartGameClick h = (startGame (gameState h) h, [])"
| "dispatch gs now (QuestionClick c i) h =
     (case gameState h of
        None \<Rightarrow> (h, [])
      | Some g \<Rightarrow> (selectQuestion now (questions (categories g ! c) ! i) h, []))"
| "dispatch gs now CorrectClick h = (handleCorrect (gameState h) h, [])"
| "dispatch gs now IncorrectClick h = (handleIncorrect now (gameState h) h, [])"
| "dispatch gs now SkipClick h = (skipQuestion (gameState h) h, [])"
| "dispatch gs now ContinueClick h = (finishReveal (gameState h) h, [])"
| "dispatch gs now ResetControllerClick h = (resetController h, [])"
| "dispatch gs now (NameBlur i v) h =
     (case gameState h of None \<Rightarrow> (h, []) | Some g \<Rightarrow> (nameBlur i v g h, []))"
| "dispatch gs now (ScoreBlur i val) h =
     (case gameState h of None \<Rightarrow> (h, []) | Some g \<Rightarrow> (scoreBlur i val g h, []))"
| "dispatch gs now QuestionTimer h = (questionTimerEffect h, [])"
| "dispatch gs now RevealTimer h = (revealTimerEffect h, [])"
| "dispatch gs now IntroTimer h = (introEffect h, [])"

text \<open>Before the board is built the component renders no control at all.\<close>

fun isControl :: "Event \<Rightarrow> bool" where
  "isControl (Message msg senderPeerId) = False"
| "isControl (Connection conn) = False"
| "isControl (ConnectionClosed n) = False"
| "isControl QuestionTimer = False"
| "isControl RevealTimer = False"
| "isControl IntroTimer = False"
| "isControl e = True"

definition enabled :: "Event \<Rightarrow> Host \<Rightarrow> bool" where
  "enabled e h = (case gameState h of None \<Rightarrow> \<not> isControl e | Some g \<Rightarrow> offered e g)"

definition host_step :: "GameState option \<Rightarrow> int \<Rightarrow> Event \<Rightarrow> Host \<Rightarrow> Host \<times> Sent" where
  "host_step gs now e h = (if enabled e h then dispatch gs now e h else (h, []))"

text \<open>A run of the host: the events in order, each with the clock reading at its time.\<close>

fun run :: "GameState option \<Rightarrow> (int \<times> Event) list \<Rightarrow> Host \<Rightarrow> Host" where
  "run gs [] h = h"
| "run gs ((now, e) # es) h = run gs es (fst (host_step gs now e h))"

text \<open>
  \<open>newState\<close> of \<open>initGame\<close>, and the host once \<open>initGame\<close> has stored it. The
  handler \<open>handlePeerMessage\<close> is memoised on \<open>[updateAndBroadcast]\<close> and handed to
  \<open>initHost\<close> once, so the \<open>startGame\<close> and \<open>skipQuestion\<close> it calls are those of
  the first render, whose \<open>gameState\<close> is the initial value of \<open>useState\<close>: null.
\<close>

definition newState :: "string \<Rightarrow> string \<Rightarrow> Category list \<Rightarrow> GameState" where
  "newState rc th cats =
     \<lparr>roomCode = rc, status = LOBBY, activeQuestion = None, activePlayerId = None,
      players = [], categories = cats, theme = th, timer = 30, buzzerLockUntil = None,
      revealTimer = None, isHostControllerConnected = None\<rparr>"

definition initialHost :: "string \<Rightarrow> string \<Rightarrow> Category list \<Rightarrow> DataConnection list \<Rightarrow> Host" where
  "initialHost rc th cats conns =
     \<lparr>gameState = Some (newState rc th cats), hostControllerPeerIdRef = None,
      introPlayerIndex = - 1, connections = conns\<rparr>"

definition firstRenderGameState :: "GameState option" where
  "firstRenderGameState = None"

section \<open>Golden and red questions (\<open>initGame\<close>)\<close>

text \<open>
  \<open>Math.random()\<close> returns a number in \<open>[0, 1)\<close>. The calls that \<open>initGame\<close> makes
  are numbered in order, and \<open>rnd k\<close> is what call number \<open>k\<close> returns, so that a
  statement about every \<open>rnd\<close> is a statement about every outcome of the random
  choices. \<open>Math.floor(Math.random() * m)\<close>:
\<close>

definition random_index :: "rat \<Rightarrow> nat \<Rightarrow> nat" where
  "random_index r m = nat \<lfloor>r * of_nat m\<rfloor>"

text \<open>The destructuring swap \<open>[a[i], a[j]] = [a[j], a[i]]\<close>.\<close>

definition swap :: "nat \<Rightarrow> nat \<Rightarrow> nat list \<Rightarrow> nat list" where
  "swap i j indices = indices[i := indices ! j, j := indices ! i]"

text \<open>
  The shuffle \<open>for (let i = indices.length - 1; i > 0; i--)\<close>, with \<open>k\<close> the number of
  the next call of \<open>Math.random()\<close>. The second argument is the loop variable.
\<close>

fun shuffle :: "(nat \<Rightarrow> rat) \<Rightarrow> nat \<Rightarrow> nat \<Rightarrow> nat list \<Rightarrow> nat list" where
  "shuffle rnd k 0 indices = indices"
| "shuffle rnd k (Suc i) indices =
     (let j = random_index (rnd k) (Suc i + 1)
      in shuffle rnd (Suc k) i (swap (Suc i) j indices))"

text \<open>
  The safety loop \<open>while (attempts < 100)\<close> for the red index; the last argument counts
  the attempts that are left. It gives \<open>-1\<close> when every attempt drew a golden index.
\<close>

fun findRedIndex :: "(nat \<Rightarrow> rat) \<Rightarrow> nat \<Rightarrow> nat \<Rightarrow> nat list \<Rightarrow> nat \<Rightarrow> int" where
  "findRedIndex rnd k qCount goldenIndices 0 = - 1"
| "findRedIndex rnd k qCount goldenIndices (Suc left) =
     (let r = random_index (rnd k) qCount
      in if r \<notin> set goldenIndices then int r
         else findRedIndex rnd (Suc k) qCount goldenIndices left)"

text \<open>
  The two passes \<open>categories.map(cat => ({...cat, questions: cat.questions.map(q => ...)}))\<close>
  with a counter that runs through all questions of the board: \<open>hit\<close> tests the counter,
  \<open>upd\<close> writes the flag.
\<close>

fun markQuestions :: "(nat \<Rightarrow> bool) \<Rightarrow> (Question \<Rightarrow> Question) \<Rightarrow> nat \<Rightarrow> Question list \<Rightarrow> Question list" where
  "markQuestions hit upd qCount [] = []"
| "markQuestions hit upd qCount (q # qs) =
     (if hit qCount then upd q else q) # markQuestions hit upd (Suc qCount) qs"

fun markCategories :: "(nat \<Rightarrow> bool) \<Rightarrow> (Question \<Rightarrow> Question) \<Rightarrow> nat \<Rightarrow> Category list \<Rightarrow> Category list" where
  "markCategories hit upd qCount [] = []"
| "markCategories hit upd qCount (cat # cats) =
     cat\<lparr>questions := markQuestions hit upd qCount (questions cat)\<rparr>
       # markCategories hit upd (qCount + length (questions cat)) cats"

definition allQuestions :: "Category list \<Rightarrow> Question list" where
  "allQuestions cats = concat (map questions cats)"

definition goldenIndices :: "(nat \<Rightarrow> rat) \<Rightarrow> Category list \<Rightarrow> nat list" where
  "goldenIndices rnd cats =
     (let n = length (allQuestions cats)
      in take 3 (shuffle rnd 0 (n - 1) [0..<n]))"

definition redIndex :: "(nat \<Rightarrow> rat) \<Rightarrow> Category list \<Rightarrow> int" where
  "redIndex rnd cats =
     (let n = length (allQuestions cats)
      in findRedIndex rnd (n - 1) n (goldenIndices rnd cats) 100)"

text \<open>\<open>categoriesWithRed\<close>: the board that \<open>initGame\<close> puts into the new state.\<close>

definition assignSpecial :: "(nat \<Rightarrow> rat) \<Rightarrow> Category list \<Rightarrow> Category list" where
  "assignSpecial rnd cats =
     (let categoriesWithGolden =
            markCategories (\<lambda>qCount. qCount \<in> set (goldenIndices rnd cats))
              (\<lambda>q. q\<lparr>isGolden := Some True\<rparr>) 0 cats
      in markCategories (\<lambda>qCountRed. int qCountRed = redIndex rnd cats)
           (\<lambda>q. q\<lparr>isRed := Some True\<rparr>) 0 categoriesWithGolden)"

text \<open>
  What the two board loaders build for a question: \<open>{...q, id, isAnswered: false, category}\<close>
  around the \<open>value\<close>, \<open>question\<close> and \<open>answer\<close> of the data, with no flag.
\<close>

definition loadQuestion :: "string \<Rightarrow> string \<Rightarrow> int \<Rightarrow> string \<Rightarrow> string \<Rightarrow> Question" where
  "loadQuestion i cat v qu an =
     \<lparr>q_id = i, q_value = v, question = qu, answer = an, isAnswered = False,
      category = cat, isGolden = None, isRed = None\<rparr>"

definition unflagged :: "Category list \<Rightarrow> bool" where
  "unflagged cats =
     list_all (\<lambda>q. \<not> truthy_flag (isGolden q) \<and> \<not> truthy_flag (isRed q)) (allQuestions cats)"

text \<open>How many questions of a board carry each flag.\<close>

definition countGolden :: "Category list \<Rightarrow> nat" where
  "countGolden cats = length (filter (\<lambda>q. truthy_flag (isGolden q)) (allQuestions cats))"

definition countRed :: "Category list \<Rightarrow> nat" where
  "countRed cats = length (filter (\<lambda>q. truthy_flag (isRed q)) (allQuestions cats))"

definition countRedAndGolden :: "Category list \<Rightarrow> nat" where
  "countRedAndGolden cats =
     length (filter (\<lambda>q. truthy_flag (isRed q) \<and> truthy_flag (isGolden q)) (allQuestions cats))"

section \<open>Observations on the host state\<close>

text \<open>The board and the roster of a host; both are empty before the state exists.\<close>

definition board :: "Host \<Rightarrow> Category list" where
  "board h = (case gameState h of None \<Rightarrow> [] | Some g \<Rightarrow> categories g)"

definition roster :: "Host \<Rightarrow> Player list" where
  "roster h = (case gameState h of None \<Rightarrow> [] | Some g \<Rightarrow> players g)"


definition phase :: "Host \<Rightarrow> Status option" where
  "phase h = map_option status (gameState h)"

text \<open>
  Two boards of the same shape, question by question: the same id, and no answered
  question of the first is unanswered in the second.
\<close>

definition answeredKept :: "Category list \<Rightarrow> Category list \<Rightarrow> bool" where
  "answeredKept cats cats' =
     list_all2 (\<lambda>cat cat'.
        list_all2 (\<lambda>q q'. q_id q' = q_id q \<and> (isAnswered q \<longrightarrow> isAnswered q'))
          (questions cat) (questions cat')) cats cats'"

text \<open>An answering player is recorded only in the phases QUESTION\_ACTIVE and REVEAL.\<close>

definition activeOnlyWhileAnswering :: "Host \<Rightarrow> bool" where
  "activeOnlyWhileAnswering h =
     (case gameState h of
        None \<Rightarrow> True
      | Some g \<Rightarrow> truthy_string (activePlayerId g)
                  \<longrightarrow> status g = QUESTION_ACTIVE \<or> status g = REVEAL)"

section \<open>A session used to run the model\<close>

definition exampleQuestions :: "string \<Rightarrow> string \<Rightarrow> Question list" where
  "exampleQuestions c t =
     [loadQuestion (''q-'' @ c @ ''-0'') t 200 ''clue 200'' ''answer 200'',
      loadQuestion (''q-'' @ c @ ''-1'') t 400 ''clue 400'' ''answer 400'',
      loadQuestion (''q-'' @ c @ ''-2'') t 600 ''clue 600'' ''answer 600'',
      loadQuestion (''q-'' @ c @ ''-3'') t 800 ''clue 800'' ''answer 800'',
      loadQuestion (''q-'' @ c @ ''-4'') t 1000 ''clue 1000'' ''answer 1000'']"

definition exampleBoard :: "Category list" where
  "exampleBoard =
     [\<lparr>title = ''Planets'', questions = exampleQuestions ''0'' ''Planets''\<rparr>,
      \<lparr>title = ''Moons'', questions = exampleQuestions ''1'' ''Moons''\<rparr>,
      \<lparr>title = ''Stars'', questions = exampleQuestions ''2'' ''Stars''\<rparr>,
      \<lparr>title = ''Probes'', questions = exampleQuestions ''3'' ''Probes''\<rparr>,
      \<lparr>title = ''Crews'', questions = exampleQuestions ''4'' ''Crews''\<rparr>]"

definition smallBoard :: "Category list" where
  "smallBoard =
     [\<lparr>title = ''Planets'',
       questions = [(loadQuestion ''q-0-0'' ''Planets'' 400 ''clue'' ''answer'')\<lparr>isGolden := Some True\<rparr>,
                    loadQuestion ''q-0-1'' ''Planets'' 600 ''clue 2'' ''answer 2'']\<rparr>]"

definition alice :: Player where
  "alice = \<lparr>p_id = ''p1'', p_name = ''Alice'', score = 0, isBuzzed = False,
            buzzTime = None, p_buzzerLockUntil = None\<rparr>"

definition bob :: Player where
  "bob = \<lparr>p_id = ''p2'', p_name = ''Bob'', score = 100, isBuzzed = False,
          buzzTime = None, p_buzzerLockUntil = None\<rparr>"

definition controllerJoin :: Player where
  "controllerJoin = \<lparr>p_id = ''c1'', p_name = ''HOST_CONTROLLER'', score = 0, isBuzzed = False,
                     buzzTime = None, p_buzzerLockUntil = None\<rparr>"

definition exampleConnections :: "DataConnection list" where
  "exampleConnections =
     [\<lparr>peer = ''peer-alice'', conn_open = True\<rparr>,
      \<lparr>peer = ''peer-bob'', conn_open = True\<rparr>,
      \<lparr>peer = ''peer-ctl'', conn_open = True\<rparr>,
      \<lparr>peer = ''peer-other'', conn_open = True\<rparr>]"

text \<open>Alice has buzzed on the golden 400 question of the small board.\<close>

definition answeringState :: GameState where
  "answeringState =
     (newState ''ABCD'' ''Space'' smallBoard)\<lparr>
        status := QUESTION_ACTIVE,
        activeQuestion := Some (hd (questions (hd smallBoard))),
        activePlayerId := Some ''p1'',
        players := [alice, bob],
        buzzerLockUntil := Some 0\<rparr>"

definition answeringHost :: Host where
  "answeringHost =
     \<lparr>gameState = Some answeringState, hostControllerPeerIdRef = Some ''peer-ctl'',
      introPlayerIndex = - 1, connections = exampleConnections\<rparr>"



text \<open>A random source for the board: no swap in the shuffle, then always index 0.\<close>

definition unluckyRandom :: "nat \<Rightarrow> rat" where
  "unluckyRandom k = (if k < 24 then 99 / 100 else 0)"

definition luckyRandom :: "nat \<Rightarrow> rat" where
  "luckyRandom k = (if k < 24 then 99 / 100 else 1 / 2)"

text \<open>
  A session from the lobby: Alice joins over her connection, the host starts the game,
  the intro runs, the first question is selected, the controller releases the buzzer,
  Alice buzzes.
\<close>

definition aliceBuzzes :: "(int \<times> Event) list" where
  "aliceBuzzes =
     [(1000, Message (PLAYER_JOIN alice ''p1'') ''peer-alice''),
      (2000, StartGameClick),
      (4000, IntroTimer),
      (5000, IntroTimer),
      (6000, QuestionClick 0 0),
      (7000, Message (HOST_ACTION RELEASE_BUZZER ''c1'') ''peer-ctl''),
      (8000, Message (BUZZ ''p1'') ''peer-alice'')]"

definition lobbyHost :: Host where
  "lobbyHost = initialHost ''ABCD'' ''Space'' smallBoard exampleConnections"

definition buzzedHost :: Host where
  "buzzedHost = run firstRenderGameState aliceBuzzes lobbyHost"

text \<open>The controller's messages: kick Alice; Alice answered correctly.\<close>

definition kickAlice :: SyncMessage where
  "kickAlice = HOST_ACTION (KICK_PLAYER ''p1'') ''c1''"

definition correctAlice :: SyncMessage where
  "correctAlice = HOST_ACTION (CORRECT (Some ''p1'')) ''c1''"

text \<open>The host after the controller has confirmed Alice's answer: the phase is REVEAL.\<close>

definition revealHost :: Host where
  "revealHost = fst (handlePeerMessage firstRenderGameState 9000 correctAlice ''peer-ctl'' answeringHost)"

section \<open>Facts about the list updates\<close>


lemma answeredKept_refl: "answeredKept cats cats"
  by (simp add: answeredKept_def list_all2_same)

lemma answeredKept_markAnswered: "answeredKept cats (markAnswered aq cats)"
  by (simp add: answeredKept_def markAnswered_def list_all2_map2 list_all2_same)

lemma answeredKept_trans:
  assumes "answeredKept a b" "answeredKept b c"
  shows "answeredKept a c"
proof -
  let ?Q = "\<lambda>q q'. q_id q' = q_id q \<and> (isAnswered q \<longrightarrow> isAnswered q')"
  have inner: "list_all2 ?Q xs zs" if "list_all2 ?Q xs ys" "list_all2 ?Q ys zs" for xs ys zs
    using that by (rule list_all2_trans[rotated]) auto
  have "list_all2 (\<lambda>cat cat'. list_all2 ?Q (questions cat) (questions cat')) a c"
    using assms unfolding answeredKept_def
    by (rule list_all2_trans[rotated]) (rule inner)
  then show ?thesis by (simp add: answeredKept_def)
qed

section \<open>Facts about the shuffle and the two marking passes\<close>

lemma random_index_less:
  assumes "0 \<le> r" "r < 1" "0 < m"
  shows "random_index r m < m"
proof -
  have "r * of_nat m < of_nat m" using assms by simp
  then have "\<lfloor>r * of_nat m\<rfloor> < int m" by (simp add: floor_less_iff)
  moreover have "0 \<le> \<lfloor>r * of_nat m\<rfloor>" using assms by simp
  ultimately show ?thesis unfolding random_index_def by linarith
qed

lemma swap_props:
  assumes "i < length xs" "j < length xs"
  shows "set (swap i j xs) = set xs" "distinct (swap i j xs) = distinct xs" "length (swap i j xs) = length xs"
  using assms by (simp_all add: swap_def)

lemma shuffle_props:
  assumes "\<forall>k. 0 \<le> rnd k \<and> rnd k < 1" "i < length xs"
  shows "set (shuffle rnd k i xs) = set xs \<and> distinct (shuffle rnd k i xs) = distinct xs
         \<and> length (shuffle rnd k i xs) = length xs"
  using assms(2)
proof (induction i arbitrary: k xs)
  case 0
  then show ?case by simp
next
  case (Suc i)
  have j: "random_index (rnd k) (Suc i + 1) < Suc i + 1"
    using assms(1) by (intro random_index_less) auto
  then have jl: "random_index (rnd k) (Suc i + 1) < length xs" using Suc.prems by simp
  have "i < length (swap (Suc i) (random_index (rnd k) (Suc i + 1)) xs)"
    using Suc.prems jl by (simp add: swap_props)
  from Suc.IH[OF this] show ?case using Suc.prems jl by (simp add: Let_def swap_props)
qed

lemma goldenIndices_props:
  assumes "\<forall>k. 0 \<le> rnd k \<and> rnd k < 1"
  shows "distinct (goldenIndices rnd cats)"
    and "set (goldenIndices rnd cats) \<subseteq> {0..<length (allQuestions cats)}"
    and "length (goldenIndices rnd cats) = min 3 (length (allQuestions cats))"
proof -
  let ?n = "length (allQuestions cats)"
  let ?s = "shuffle rnd 0 (?n - 1) [0..<?n]"
  have P: "set ?s = set [0..<?n] \<and> distinct ?s = distinct [0..<?n] \<and> length ?s = length [0..<?n]"
  proof (cases "?n = 0")
    case True
    then show ?thesis by simp
  next
    case False
    then have "?n - 1 < length [0..<?n]" by simp
    from shuffle_props[OF assms this] show ?thesis .
  qed
  show "distinct (goldenIndices rnd cats)" using P by (simp add: goldenIndices_def Let_def)
  show "set (goldenIndices rnd cats) \<subseteq> {0..<?n}"
    using P set_take_subset[of 3 ?s] by (simp add: goldenIndices_def Let_def)
  show "length (goldenIndices rnd cats) = min 3 ?n"
    using P by (simp add: goldenIndices_def Let_def min.commute)
qed

lemma findRedIndex_cases:
  "findRedIndex rnd k n g left = - 1 \<and> (\<forall>a<left. random_index (rnd (k + a)) n \<in> set g)
   \<or> (\<exists>a<left. findRedIndex rnd k n g left = int (random_index (rnd (k + a)) n)
         \<and> random_index (rnd (k + a)) n \<notin> set g)"
proof (induction left arbitrary: k)
  case 0
  then show ?case by simp
next
  case (Suc left)
  show ?case
  proof (cases "random_index (rnd k) n \<in> set g")
    case False
    then have "findRedIndex rnd k n g (Suc left) = int (random_index (rnd (k + 0)) n)
       \<and> random_index (rnd (k + 0)) n \<notin> set g" by (simp add: Let_def)
    then show ?thesis by blast
  next
    case True
    then have eq: "findRedIndex rnd k n g (Suc left) = findRedIndex rnd (Suc k) n g left"
      by (simp add: Let_def)
    from Suc.IH[of "Suc k"] show ?thesis
    proof
      assume A: "findRedIndex rnd (Suc k) n g left = - 1 \<and> (\<forall>a<left. random_index (rnd (Suc k + a)) n \<in> set g)"
      have "\<forall>a<Suc left. random_index (rnd (k + a)) n \<in> set g"
      proof (intro allI impI)
        fix a assume "a < Suc left"
        show "random_index (rnd (k + a)) n \<in> set g"
        proof (cases a)
          case 0 then show ?thesis using True by simp
        next
          case (Suc b)
          then have "b < left" using \<open>a < Suc left\<close> by simp
          with A have "random_index (rnd (Suc k + b)) n \<in> set g" by blast
          then show ?thesis using Suc by simp
        qed
      qed
      with A eq show ?thesis by simp
    next
      assume "\<exists>a<left. findRedIndex rnd (Suc k) n g left = int (random_index (rnd (Suc k + a)) n) \<and>
            random_index (rnd (Suc k + a)) n \<notin> set g"
      then obtain a where a: "a < left" "findRedIndex rnd (Suc k) n g left = int (random_index (rnd (Suc k + a)) n)"
          "random_index (rnd (Suc k + a)) n \<notin> set g" by blast
      then have "Suc a < Suc left \<and> findRedIndex rnd k n g (Suc left) = int (random_index (rnd (k + Suc a)) n)
         \<and> random_index (rnd (k + Suc a)) n \<notin> set g" using eq by simp
      then show ?thesis by blast
    qed
  qed
qed

lemma markQuestions_length [simp]: "length (markQuestions hit upd k qs) = length qs"
  by (induction qs arbitrary: k) auto

lemma markQuestions_append:
  "markQuestions hit upd k (xs @ ys) = markQuestions hit upd k xs @ markQuestions hit upd (k + length xs) ys"
  by (induction xs arbitrary: k) auto

lemma allQuestions_markCategories:
  "allQuestions (markCategories hit upd k cats) = markQuestions hit upd k (allQuestions cats)"
  by (induction cats arbitrary: k) (auto simp: allQuestions_def markQuestions_append)

lemma markQuestions_nth:
  "i < length qs \<Longrightarrow> markQuestions hit upd k qs ! i = (if hit (k + i) then upd (qs ! i) else qs ! i)"
proof (induction qs arbitrary: k i)
  case Nil
  then show ?case by simp
next
  case (Cons q qs)
  then show ?case by (cases i) auto
qed

lemma count_marked:
  assumes "\<forall>q\<in>set qs. \<not> P q" "\<And>q. P (upd q)"
  shows "length (filter P (markQuestions hit upd k qs)) = length (filter hit [k..<k + length qs])"
  using assms(1)
proof (induction qs arbitrary: k)
  case Nil
  then show ?case by simp
next
  case (Cons q qs)
  have "[k..<k + length (q # qs)] = k # [Suc k..<Suc k + length qs]"
    by (subst upt_rec) simp
  with Cons assms(2) show ?case by simp
qed

lemma count_unaffected:
  assumes "\<And>q. P (upd q) = P q"
  shows "length (filter P (markQuestions hit upd k qs)) = length (filter P qs)"
  by (induction qs arbitrary: k) (auto simp: assms)

lemma all_kept:
  assumes "\<forall>q\<in>set qs. Q q" "\<And>q. Q q \<Longrightarrow> Q (upd q)"
  shows "\<forall>q\<in>set (markQuestions hit upd k qs). Q q"
  using assms(1) by (induction qs arbitrary: k) (auto simp: assms(2))

lemma count_members:
  assumes "distinct g" "set g \<subseteq> {0..<n}"
  shows "length (filter (\<lambda>i. i \<in> set g) [0..<n]) = length g"
proof -
  have "set (filter (\<lambda>i. i \<in> set g) [0..<n]) = set g" using assms(2) by auto
  moreover have "distinct (filter (\<lambda>i. i \<in> set g) [0..<n])" by simp
  ultimately show ?thesis using assms(1) by (metis distinct_card)
qed

lemma count_index:
  "length (filter (\<lambda>i. int i = r) [0..<n]) = (if 0 \<le> r \<and> r < int n then 1 else 0)"
proof (cases "0 \<le> r \<and> r < int n")
  case True
  then have "filter (\<lambda>i. int i = r) [0..<n] = filter (\<lambda>i. i = nat r) [0..<n]"
    by (intro filter_cong) auto
  also have "length \<dots> = 1" using True
    by (induction n) auto
  finally show ?thesis using True by simp
next
  case False
  then have "filter (\<lambda>i. int i = r) [0..<n] = []" by (auto simp: filter_empty_conv)
  then show ?thesis using False by simp
qed

lemma flags_of_board:
  assumes rnd: "\<forall>k. 0 \<le> rnd k \<and> rnd k < 1"
    and unfl: "unflagged cats"
    and n3: "3 \<le> length (allQuestions cats)"
  shows "length (filter (\<lambda>q. truthy_flag (isGolden q)) (allQuestions (assignSpecial rnd cats))) = 3
   \<and> length (filter (\<lambda>q. truthy_flag (isRed q)) (allQuestions (assignSpecial rnd cats)))
       = (if redIndex rnd cats = - 1 then 0 else 1)
   \<and> (redIndex rnd cats = - 1 \<longleftrightarrow>
        (\<forall>a<100. random_index (rnd (length (allQuestions cats) - 1 + a)) (length (allQuestions cats))
                    \<in> set (goldenIndices rnd cats)))
   \<and> list_all (\<lambda>q. \<not> (truthy_flag (isGolden q) \<and> truthy_flag (isRed q)))
        (allQuestions (assignSpecial rnd cats))"
proof -
  let ?A = "allQuestions cats"
  let ?n = "length ?A"
  let ?g = "goldenIndices rnd cats"
  let ?r = "redIndex rnd cats"
  let ?hitG = "\<lambda>qCount. qCount \<in> set ?g"
  let ?updG = "\<lambda>q::Question. q\<lparr>isGolden := Some True\<rparr>"
  let ?hitR = "\<lambda>qCountRed. int qCountRed = ?r"
  let ?updR = "\<lambda>q::Question. q\<lparr>isRed := Some True\<rparr>"
  let ?G = "markQuestions ?hitG ?updG 0 ?A"
  let ?F = "markQuestions ?hitR ?updR 0 ?G"
  let ?gold = "\<lambda>q. truthy_flag (isGolden q)"
  let ?red = "\<lambda>q. truthy_flag (isRed q)"
  have F: "allQuestions (assignSpecial rnd cats) = ?F"
    by (simp add: assignSpecial_def Let_def allQuestions_markCategories)
  have A_plain: "\<forall>q\<in>set ?A. \<not> ?gold q \<and> \<not> ?red q"
    using unfl by (simp add: unflagged_def list_all_iff)
  have gd: "distinct ?g" and gs: "set ?g \<subseteq> {0..<?n}" and gl: "length ?g = min 3 ?n"
    using goldenIndices_props[OF rnd] by blast+
  have r_def: "?r = findRedIndex rnd (?n - 1) ?n ?g 100"
    by (simp add: redIndex_def Let_def)
  have npos: "0 < ?n" using n3 by (cases ?A) auto
  have r_cases: "?r = - 1 \<and> (\<forall>a<100. random_index (rnd (?n - 1 + a)) ?n \<in> set ?g)
      \<or> (\<exists>a<100. ?r = int (random_index (rnd (?n - 1 + a)) ?n) \<and> random_index (rnd (?n - 1 + a)) ?n \<notin> set ?g)"
    unfolding r_def by (rule findRedIndex_cases)
  have r_range: "?r = - 1 \<or> (0 \<le> ?r \<and> ?r < int ?n \<and> nat ?r \<notin> set ?g)"
  proof -
    from r_cases show ?thesis
    proof
      assume "?r = - 1 \<and> (\<forall>a<100. random_index (rnd (?n - 1 + a)) ?n \<in> set ?g)"
      then show ?thesis by simp
    next
      assume "\<exists>a<100. ?r = int (random_index (rnd (?n - 1 + a)) ?n) \<and> random_index (rnd (?n - 1 + a)) ?n \<notin> set ?g"
      then obtain x where x: "?r = int x" "x \<notin> set ?g" "\<exists>k. x = random_index (rnd k) ?n" by blast
      have "random_index (rnd k) ?n < ?n" for k
        using rnd npos by (intro random_index_less) auto
      with x have "x < ?n" by blast
      with x show ?thesis by simp
    qed
  qed
  have G_red: "\<forall>q\<in>set ?G. \<not> ?red q"
    by (rule all_kept) (use A_plain in auto)
  have c1: "length (filter ?gold ?F) = 3"
  proof -
    have "length (filter ?gold ?F) = length (filter ?gold ?G)"
      by (rule count_unaffected) simp
    also have "\<dots> = length (filter ?hitG [0..<0 + ?n])"
      by (rule count_marked) (use A_plain in \<open>auto simp: truthy_flag_def\<close>)
    also have "\<dots> = length ?g" using count_members[OF gd gs] by simp
    finally show ?thesis using gl n3 by simp
  qed
  have c2: "length (filter ?red ?F) = (if ?r = - 1 then 0 else 1)"
  proof -
    have "length (filter ?red ?F) = length (filter ?hitR [0..<0 + length ?G])"
      by (rule count_marked) (use G_red in \<open>auto simp: truthy_flag_def\<close>)
    also have "\<dots> = (if 0 \<le> ?r \<and> ?r < int ?n then 1 else 0)"
      by (simp add: count_index)
    finally show ?thesis using r_range by auto
  qed
  have c3: "?r = - 1 \<longleftrightarrow> (\<forall>a<100. random_index (rnd (?n - 1 + a)) ?n \<in> set ?g)"
    using r_cases by fastforce
  have c4: "list_all (\<lambda>q. \<not> (?gold q \<and> ?red q)) ?F"
  proof -
    have "\<not> (?gold (?F ! i) \<and> ?red (?F ! i))" if i: "i < ?n" for i
    proof
      assume both: "?gold (?F ! i) \<and> ?red (?F ! i)"
      have Fi: "?F ! i = (if int i = ?r then ?updR (?G ! i) else ?G ! i)"
        using i markQuestions_nth[of i ?G ?hitR ?updR 0] by simp
      have Gi: "?G ! i = (if i \<in> set ?g then ?updG (?A ! i) else ?A ! i)"
        using i markQuestions_nth[of i ?A ?hitG ?updG 0] by simp
      have Ai: "\<not> ?gold (?A ! i) \<and> \<not> ?red (?A ! i)" using A_plain i by simp
      have "int i = ?r" using both Fi Gi Ai by (auto split: if_splits)
      moreover have "i \<in> set ?g" using both Fi Gi Ai by (auto split: if_splits)
      moreover from \<open>int i = ?r\<close> have "nat ?r = i" by simp
      ultimately show False using r_range by auto
    qed
    then show ?thesis by (simp add: list_all_length)
  qed
  show ?thesis using c1 c2 c3 c4 unfolding F by blast
qed


section \<open>Every event keeps the answered questions answered\<close>

lemma board_fields [simp]:
  "board (h\<lparr>introPlayerIndex := i\<rparr>) = board h"
  "board (h\<lparr>hostControllerPeerIdRef := r\<rparr>) = board h"
  "board (h\<lparr>connections := cs\<rparr>) = board h"
  by (simp_all add: board_def)

lemma kept_skipQuestion:
  "gs = None \<or> gs = gameState h \<Longrightarrow> answeredKept (board h) (board (skipQuestion gs h))"
  by (auto simp: skipQuestion_def updateAndBroadcast_def setGameState_def answeredKept_refl answeredKept_markAnswered board_def
           split: option.splits)

lemma kept_startGame: "answeredKept (board h) (board (startGame gs h))"
  by (auto simp: startGame_def updateAndBroadcast_def setGameState_def answeredKept_refl board_def split: option.splits)

lemma kept_selectQuestion: "answeredKept (board h) (board (selectQuestion now q h))"
  by (auto simp: selectQuestion_def updateAndBroadcast_def setGameState_def answeredKept_refl board_def split: option.splits)

lemma kept_handleCorrect: "answeredKept (board h) (board (handleCorrect (gameState h) h))"
  by (auto simp: handleCorrect_def updateAndBroadcast_def setGameState_def answeredKept_refl answeredKept_markAnswered board_def
           split: option.splits)

lemma kept_handleIncorrect: "answeredKept (board h) (board (handleIncorrect now (gameState h) h))"
  by (auto simp: handleIncorrect_def updateAndBroadcast_def setGameState_def answeredKept_refl board_def split: option.splits)

lemma kept_finishReveal: "answeredKept (board h) (board (finishReveal gs h))"
  by (auto simp: finishReveal_def updateAndBroadcast_def setGameState_def answeredKept_refl board_def split: option.splits)

lemma kept_onHostAction:
  assumes "gs = None \<or> gs = gameState h" "gameState h = Some g"
  shows "answeredKept (board h) (board (fst (onHostAction gs now a g h)))"
proof (cases a)
  case START_GAME
  then show ?thesis by (simp add: kept_startGame)
next
  case (SELECT_QUESTION x)
  then show ?thesis by (simp add: kept_selectQuestion answeredKept_refl split: option.splits)
next
  case (CORRECT x)
  then show ?thesis using assms(2)
    by (simp add: updateAndBroadcast_def setGameState_def answeredKept_refl answeredKept_markAnswered board_def split: option.splits)
next
  case (INCORRECT x)
  then show ?thesis using assms(2)
    by (simp add: updateAndBroadcast_def setGameState_def answeredKept_refl board_def split: option.splits)
next
  case CONTINUE
  then show ?thesis using assms(2)
    by (simp add: updateAndBroadcast_def setGameState_def answeredKept_refl board_def)
next
  case SKIP
  then show ?thesis using assms(1) by (simp add: kept_skipQuestion)
next
  case RELEASE_BUZZER
  then show ?thesis using assms(2) by (simp add: updateAndBroadcast_def setGameState_def answeredKept_refl board_def)
next
  case (RENAME_PLAYER x y)
  then show ?thesis using assms(2) by (simp add: updateAndBroadcast_def setGameState_def answeredKept_refl board_def)
next
  case (OVERRIDE_SCORE x y)
  then show ?thesis using assms(2) by (simp add: updateAndBroadcast_def setGameState_def answeredKept_refl board_def)
next
  case (KICK_PLAYER x)
  then show ?thesis using assms(2) by (simp add: updateAndBroadcast_def setGameState_def answeredKept_refl board_def)
next
  case (OTHER_ACTION x)
  then show ?thesis by (simp add: answeredKept_refl)
qed

lemma kept_handlePeerMessage:
  assumes "gs = None \<or> gs = gameState h"
  shows "answeredKept (board h) (board (fst (handlePeerMessage gs now msg sp h)))"
proof (cases "gameState h")
  case None
  then show ?thesis by (simp add: handlePeerMessage_def answeredKept_refl)
next
  case (Some g)
  show ?thesis
  proof (cases msg)
    case (PLAYER_JOIN p s)
    then show ?thesis using Some
      by (simp add: handlePeerMessage_def onPlayerJoin_def updateAndBroadcast_def setGameState_def answeredKept_refl board_def)
  next
    case (BUZZ s)
    then show ?thesis using Some
      by (simp add: handlePeerMessage_def onBuzz_def Let_def updateAndBroadcast_def setGameState_def answeredKept_refl board_def)
  next
    case (BUZZ_LOCKED_ATTEMPT s)
    then show ?thesis using Some
      by (simp add: handlePeerMessage_def onBuzzLockedAttempt_def updateAndBroadcast_def setGameState_def answeredKept_refl board_def)
  next
    case (HOST_ACTION a s)
    then show ?thesis using Some kept_onHostAction[OF assms Some]
      by (simp add: handlePeerMessage_def)
  qed (simp_all add: handlePeerMessage_def answeredKept_refl Some)
qed

lemma kept_questionTimerEffect: "answeredKept (board h) (board (questionTimerEffect h))"
proof -
  have "questionTimerEffect h = skipQuestion (gameState h) h \<or> board (questionTimerEffect h) = board h"
    by (auto simp: questionTimerEffect_def setGameState_def board_def split: option.splits)
  then show ?thesis
    using kept_skipQuestion[of "gameState h" h] by (auto simp: answeredKept_refl)
qed

lemma kept_revealTimerEffect: "answeredKept (board h) (board (revealTimerEffect h))"
proof -
  have "revealTimerEffect h = finishReveal (gameState h) h \<or> board (revealTimerEffect h) = board h"
    by (auto simp: revealTimerEffect_def setGameState_def board_def Let_def split: option.splits)
  then show ?thesis
    using kept_finishReveal[of h "gameState h"] by (auto simp: answeredKept_refl)
qed

lemma kept_effects:
  "answeredKept (board h) (board (introEffect h))"
  "answeredKept (board h) (board (resetController h))"
  "answeredKept (board h) (board (onDisconnect p h))"
  "answeredKept (board h) (board (nameBlur i v g h))"
  "answeredKept (board h) (board (scoreBlur i val g h))"
  by (auto simp: introEffect_def resetController_def onDisconnect_def nameBlur_def scoreBlur_def
        updateAndBroadcast_def answeredKept_refl board_def split: option.splits)

lemma kept_dispatch:
  assumes "gs = None \<or> gs = gameState h"
  shows "answeredKept (board h) (board (fst (dispatch gs now e h)))"
proof (cases e)
  case (Message msg sp)
  then show ?thesis using kept_handlePeerMessage[OF assms] by simp
next
  case (ConnectionClosed n)
  then show ?thesis using kept_effects(3)[of "h\<lparr>connections := take n (connections h) @ drop (Suc n) (connections h)\<rparr>"]
    by (simp add: answeredKept_refl)
next
  case (QuestionClick c i)
  then show ?thesis by (simp add: kept_selectQuestion answeredKept_refl split: option.splits)
next
  case (NameBlur i v)
  then show ?thesis by (simp add: kept_effects answeredKept_refl split: option.splits)
next
  case (ScoreBlur i v)
  then show ?thesis by (simp add: kept_effects answeredKept_refl split: option.splits)
qed (simp_all add: answeredKept_refl kept_startGame kept_handleCorrect kept_handleIncorrect
       kept_skipQuestion kept_finishReveal kept_effects kept_questionTimerEffect kept_revealTimerEffect)

lemma kept_host_step:
  assumes "gs = None \<or> gs = gameState h"
  shows "answeredKept (board h) (board (fst (host_step gs now e h)))"
  using kept_dispatch[OF assms] by (simp add: host_step_def answeredKept_refl)

lemma kept_run: "answeredKept (board h) (board (run None es h))"
proof (induction es arbitrary: h)
  case Nil
  then show ?case by (simp add: answeredKept_refl)
next
  case (Cons x es)
  obtain now e where x: "x = (now, e)" by (cases x)
  have "answeredKept (board h) (board (fst (host_step None now e h)))"
    by (rule kept_host_step) simp
  moreover have "answeredKept (board (fst (host_step None now e h))) (board (run None es (fst (host_step None now e h))))"
    by (rule Cons.IH)
  ultimately show ?case using x by (auto intro: answeredKept_trans)
qed

section \<open>Every event keeps the answering player inside the answering phases\<close>

lemma inv_fields [simp]:
  "activeOnlyWhileAnswering (h\<lparr>introPlayerIndex := i\<rparr>) = activeOnlyWhileAnswering h"
  "activeOnlyWhileAnswering (h\<lparr>hostControllerPeerIdRef := r\<rparr>) = activeOnlyWhileAnswering h"
  "activeOnlyWhileAnswering (h\<lparr>connections := cs\<rparr>) = activeOnlyWhileAnswering h"
  by (simp_all add: activeOnlyWhileAnswering_def)















section \<open>The example session\<close>


lemma answering_facts:
  "gameState answeringHost = Some answeringState"
  "status answeringState = QUESTION_ACTIVE"
  "activeQuestion answeringState = Some (hd (questions (hd smallBoard)))"
  "activePlayerId answeringState = Some ''p1''"
  "players answeringState = [alice, bob]"
  by (simp_all add: answeringHost_def answeringState_def)


lemma unit_interval_lucky: "\<forall>k. 0 \<le> luckyRandom k \<and> luckyRandom k < 1"
  by (simp add: luckyRandom_def)

section \<open>Scoring\<close>




section \<open>Buzzer locks\<close>



section \<open>The answering player\<close>




section \<open>Messages in the wrong phase\<close>

text \<open>
  Claim C4, at the input where the code departs from it. The host is in phase REVEAL
  after a CORRECT for Alice, who has 800. A second CORRECT message is not dropped: it
  passes the guard of the message handler, which tests the active question and the
  answering player but not the phase, and Alice has 1600. The host's own button
  handler does test the phase and changes nothing in the same state.
\<close>

theorem correct_during_reveal_scores_again:
  "phase revealHost = Some REVEAL
   \<and> map score (roster revealHost) = [800, 100]
   \<and> map score (roster (fst (handlePeerMessage firstRenderGameState 9500 correctAlice ''peer-ctl'' revealHost)))
       = [1600, 100]
   \<and> handleCorrect (gameState revealHost) revealHost = revealHost"
  by code_simp

theorem correct_during_reveal_scores_again_witness:
  "fst (handlePeerMessage firstRenderGameState 9500 correctAlice ''peer-ctl'' revealHost) \<noteq> revealHost"
proof
  assume same: "fst (handlePeerMessage firstRenderGameState 9500 correctAlice ''peer-ctl'' revealHost) = revealHost"
  have "map score (roster revealHost) = [1600, 100]"
    using correct_during_reveal_scores_again unfolding same by blast
  moreover have "map score (roster revealHost) = [800, 100]"
    using correct_during_reveal_scores_again by blast
  ultimately show False by simp
qed

section \<open>Kicking a player\<close>

text \<open>
  Claim C5, at the input where the code departs from it. Alice joined over the open
  connection of peer \<open>peer-alice\<close> with player id \<open>p1\<close>. KICK\_PLAYER \<open>p1\<close> removes
  her from the roster, but the KICKED message is looked up under the player id among
  the peer ids of the connections, finds none, and is sent to nobody.
\<close>

theorem kicked_never_sent:
  "roster buzzedHost = [alice] \<and> p_id alice = ''p1''
   \<and> connections buzzedHost = exampleConnections
   \<and> sendToPeer (connections buzzedHost) ''peer-alice'' (KICKED ''You have been kicked by the host.'' ''HOST'')
       = [(''peer-alice'', KICKED ''You have been kicked by the host.'' ''HOST'')]
   \<and> snd (host_step firstRenderGameState 9000 (Message kickAlice ''peer-ctl'') buzzedHost) = []
   \<and> roster (fst (host_step firstRenderGameState 9000 (Message kickAlice ''peer-ctl'') buzzedHost)) = []"
  by code_simp

theorem kicked_never_sent_witness:
  "snd (host_step firstRenderGameState 9000 (Message kickAlice ''peer-ctl'') buzzedHost)
     \<noteq> sendToPeer (connections buzzedHost) ''peer-alice'' (KICKED ''You have been kicked by the host.'' ''HOST'')"
proof
  assume same: "snd (host_step firstRenderGameState 9000 (Message kickAlice ''peer-ctl'') buzzedHost)
     = sendToPeer (connections buzzedHost) ''peer-alice'' (KICKED ''You have been kicked by the host.'' ''HOST'')"
  have "snd (host_step firstRenderGameState 9000 (Message kickAlice ''peer-ctl'') buzzedHost) = []"
    using kicked_never_sent by blast
  moreover have "sendToPeer (connections buzzedHost) ''peer-alice'' (KICKED ''You have been kicked by the host.'' ''HOST'')
       = [(''peer-alice'', KICKED ''You have been kicked by the host.'' ''HOST'')]"
    using kicked_never_sent by blast
  ultimately show False using same by simp
qed

section \<open>The end of the reveal\<close>




section \<open>Answered questions\<close>

text \<open>
  Claim C7. No event of the host turns an answered question back into an unanswered
  one: after any event the board has the same questions in the same places, and each
  question that was answered before is answered after. This holds for the message
  handler as it is installed (its \<open>skipQuestion\<close> sees the null state of the first
  render) and also if it saw the current state; and so it holds along every run.
\<close>

theorem answered_never_reverts:
  "(gs = None \<or> gs = gameState h
      \<longrightarrow> answeredKept (board h) (board (fst (host_step gs now e h))))
   \<and> answeredKept (board h) (board (run firstRenderGameState es h))"
  using kept_host_step[of gs h now e] kept_run[of h es]
  by (simp add: firstRenderGameState_def)

theorem answered_never_reverts_witness:
  "(firstRenderGameState = None \<or> firstRenderGameState = gameState revealHost)
   \<and> answeredKept (board revealHost)
        (board (fst (host_step firstRenderGameState 9600 ContinueClick revealHost)))
   \<and> answeredKept (board revealHost)
        (board (run firstRenderGameState
                  [(9600, ContinueClick), (9700, QuestionClick 0 0), (9800, QuestionClick 0 1),
                   (9900, SkipClick)] revealHost))
   \<and> isAnswered (hd (questions (hd (board revealHost))))
   \<and> isAnswered (hd (questions (hd (board (run firstRenderGameState
                  [(9600, ContinueClick), (9700, QuestionClick 0 0), (9800, QuestionClick 0 1),
                   (9900, SkipClick)] revealHost)))))"
proof -
  have n: "firstRenderGameState = None \<or> firstRenderGameState = gameState revealHost"
    by (simp add: firstRenderGameState_def)
  note inst = answered_never_reverts[of firstRenderGameState revealHost 9600 ContinueClick
               "[(9600, ContinueClick), (9700, QuestionClick 0 0), (9800, QuestionClick 0 1),
                 (9900, SkipClick)]"]
  have a: "answeredKept (board revealHost)
        (board (fst (host_step firstRenderGameState 9600 ContinueClick revealHost)))"
    using inst n by blast
  have b: "answeredKept (board revealHost)
        (board (run firstRenderGameState
                  [(9600, ContinueClick), (9700, QuestionClick 0 0), (9800, QuestionClick 0 1),
                   (9900, SkipClick)] revealHost))"
    using inst by blast
  have c: "isAnswered (hd (questions (hd (board revealHost))))" by code_simp
  have d: "isAnswered (hd (questions (hd (board (run firstRenderGameState
                  [(9600, ContinueClick), (9700, QuestionClick 0 0), (9800, QuestionClick 0 1),
                   (9900, SkipClick)] revealHost)))))" by code_simp
  show ?thesis using n a b c d by blast
qed

section \<open>Golden and red questions\<close>

text \<open>
  Claim C8, as the code has it. For every outcome of the random choices, on a board
  with at least 3 questions that the loader has left unflagged: exactly 3 questions are
  golden; no question is both red and golden; and exactly one question is red unless
  each of the 100 draws of the safety loop hits a golden index, in which case the red
  index stays \<open>-1\<close> and no question is red.
\<close>

theorem board_flags:
  assumes rnd: "\<forall>k. 0 \<le> rnd k \<and> rnd k < 1"
    and unfl: "unflagged cats"
    and n3: "3 \<le> length (allQuestions cats)"
  shows "countGolden (assignSpecial rnd cats) = 3
   \<and> countRed (assignSpecial rnd cats) = (if redIndex rnd cats = - 1 then 0 else 1)
   \<and> (redIndex rnd cats = - 1 \<longleftrightarrow>
        (\<forall>a<100. random_index (rnd (length (allQuestions cats) - 1 + a)) (length (allQuestions cats))
                    \<in> set (goldenIndices rnd cats)))
   \<and> countRedAndGolden (assignSpecial rnd cats) = 0"
proof -
  note L = flags_of_board[OF rnd unfl n3]
  have "list_all (\<lambda>q. \<not> (truthy_flag (isGolden q) \<and> truthy_flag (isRed q)))
          (allQuestions (assignSpecial rnd cats))"
    using L by blast
  then have "filter (\<lambda>q. truthy_flag (isRed q) \<and> truthy_flag (isGolden q))
               (allQuestions (assignSpecial rnd cats)) = []"
    by (auto simp: filter_empty_conv list_all_iff)
  then have z: "countRedAndGolden (assignSpecial rnd cats) = 0"
    by (simp add: countRedAndGolden_def)
  show ?thesis
    using L z unfolding countGolden_def countRed_def by blast
qed

theorem board_flags_witness:
  "(\<forall>k. 0 \<le> luckyRandom k \<and> luckyRandom k < 1) \<and> unflagged exampleBoard
   \<and> 3 \<le> length (allQuestions exampleBoard)
   \<and> countGolden (assignSpecial luckyRandom exampleBoard) = 3
   \<and> countRed (assignSpecial luckyRandom exampleBoard) = 1
   \<and> redIndex luckyRandom exampleBoard = 12
   \<and> countRedAndGolden (assignSpecial luckyRandom exampleBoard) = 0"
proof -
  have u: "unflagged exampleBoard" by code_simp
  have n: "3 \<le> length (allQuestions exampleBoard)" by code_simp
  have i: "redIndex luckyRandom exampleBoard = 12" by code_simp
  note inst = board_flags[OF unit_interval_lucky u n]
  have r: "countRed (assignSpecial luckyRandom exampleBoard) = 1"
    using inst i by simp
  show ?thesis using unit_interval_lucky u n inst i r by blast
qed

text \<open>
  Claim C8 as stated fails on the 5 by 5 board: with a random source whose shuffle
  draws swap nothing (golden indices 0, 1, 2) and whose later draws are all 0, every
  attempt of the safety loop hits the golden index 0, and no question is red.
\<close>

theorem board_without_red:
  "countRed (assignSpecial unluckyRandom exampleBoard) = 0
   \<and> countGolden (assignSpecial unluckyRandom exampleBoard) = 3
   \<and> length (allQuestions exampleBoard) = 25"
  by code_simp

section \<open>The controller slot\<close>

text \<open>
  Claim C9. A PLAYER\_JOIN named HOST\_CONTROLLER that arrives over an open connection
  while the slot holds another peer id is answered with REJECTED on that connection and
  changes nothing, so the sender does not become the controller; in every other case
  the sender's peer id takes the slot and \<open>isHostControllerConnected\<close> becomes true.
  In neither case is the payload added to the players. The slot is one ref, so it holds
  one peer id at most.
\<close>

theorem controller_slot:
  assumes h: "gameState h = Some g"
    and nm: "p_name newPlayer = ''HOST_CONTROLLER''"
    and conn: "find (\<lambda>c. peer c = senderPeerId) (connections h) = Some c" "conn_open c"
  shows "((\<exists>holder. hostControllerPeerIdRef h = Some holder \<and> holder \<noteq> [] \<and> holder \<noteq> senderPeerId)
          \<longrightarrow> handlePeerMessage gs now (PLAYER_JOIN newPlayer sid) senderPeerId h
               = (h, [(senderPeerId, REJECTED ''Another host controller is already connected.'' ''HOST'')]))
       \<and> (\<not> (\<exists>holder. hostControllerPeerIdRef h = Some holder \<and> holder \<noteq> [] \<and> holder \<noteq> senderPeerId)
          \<longrightarrow> handlePeerMessage gs now (PLAYER_JOIN newPlayer sid) senderPeerId h
               = (h\<lparr>gameState := Some (g\<lparr>isHostControllerConnected := Some True\<rparr>),
                    hostControllerPeerIdRef := Some senderPeerId\<rparr>, []))
       \<and> roster (fst (handlePeerMessage gs now (PLAYER_JOIN newPlayer sid) senderPeerId h)) = roster h"
proof -
  have p: "peer c = senderPeerId" using conn(1) by (auto simp: find_Some_iff)
  show ?thesis
    using h nm conn p
    by (auto simp: handlePeerMessage_def onPlayerJoin_def sendToPeer_def updateAndBroadcast_def
                   truthy_string_def roster_def split: option.splits)
qed

theorem controller_slot_witness:
  "gameState answeringHost = Some answeringState
   \<and> p_name controllerJoin = ''HOST_CONTROLLER''
   \<and> hostControllerPeerIdRef answeringHost = Some ''peer-ctl''
   \<and> handlePeerMessage firstRenderGameState 100 (PLAYER_JOIN controllerJoin ''c2'') ''peer-other'' answeringHost
       = (answeringHost,
          [(''peer-other'', REJECTED ''Another host controller is already connected.'' ''HOST'')])
   \<and> roster (fst (handlePeerMessage firstRenderGameState 100 (PLAYER_JOIN controllerJoin ''c2'')
                     ''peer-other'' answeringHost)) = roster answeringHost"
proof -
  have nm: "p_name controllerJoin = ''HOST_CONTROLLER''" by (simp add: controllerJoin_def)
  have f: "find (\<lambda>c. peer c = ''peer-other'') (connections answeringHost)
             = Some \<lparr>peer = ''peer-other'', conn_open = True\<rparr>"
    by (simp add: answeringHost_def exampleConnections_def)
  have o: "conn_open \<lparr>peer = ''peer-other'', conn_open = True\<rparr>" by simp
  have r: "hostControllerPeerIdRef answeringHost = Some ''peer-ctl''"
    by (simp add: answeringHost_def)
  have held: "\<exists>holder. hostControllerPeerIdRef answeringHost = Some holder \<and> holder \<noteq> []
                \<and> holder \<noteq> ''peer-other''"
    using r by simp
  note inst = controller_slot[OF answering_facts(1) nm f o, of firstRenderGameState 100 "''c2''"]
  have a: "handlePeerMessage firstRenderGameState 100 (PLAYER_JOIN controllerJoin ''c2'') ''peer-other'' answeringHost
       = (answeringHost,
          [(''peer-other'', REJECTED ''Another host controller is already connected.'' ''HOST'')])"
    using inst held by blast
  have b: "roster (fst (handlePeerMessage firstRenderGameState 100 (PLAYER_JOIN controllerJoin ''c2'')
                     ''peer-other'' answeringHost)) = roster answeringHost"
    using inst by blast
  show ?thesis using answering_facts(1) nm r a b by blast
qed

section \<open>Who may send a host action\<close>

text \<open>
  Claim C10. The host applies a HOST\_ACTION without looking at who sent it: for every
  action, the next state and the messages sent are the same for any two sender ids and
  any two connections, so a player's HOST\_ACTION does exactly what the controller's does.
\<close>

theorem host_action_ignores_sender:
  "handlePeerMessage gs now (HOST_ACTION a sid1) peer1 h
     = handlePeerMessage gs now (HOST_ACTION a sid2) peer2 h
   \<and> host_step gs now (Message (HOST_ACTION a sid1) peer1) h
     = host_step gs now (Message (HOST_ACTION a sid2) peer2) h"
  by (simp add: handlePeerMessage_def host_step_def enabled_def split: option.splits)


theorem host_action_ignores_sender_witness:
  "handlePeerMessage firstRenderGameState 9000 (HOST_ACTION (OVERRIDE_SCORE ''p1'' 5000) ''p1'') ''peer-alice'' answeringHost
     = handlePeerMessage firstRenderGameState 9000 (HOST_ACTION (OVERRIDE_SCORE ''p1'' 5000) ''c1'') ''peer-ctl'' answeringHost
   \<and> map score (roster (fst (handlePeerMessage firstRenderGameState 9000
                               (HOST_ACTION (OVERRIDE_SCORE ''p1'' 5000) ''p1'') ''peer-alice'' answeringHost)))
       = [5000, 100]"
proof -
  have a: "handlePeerMessage firstRenderGameState 9000 (HOST_ACTION (OVERRIDE_SCORE ''p1'' 5000) ''p1'') ''peer-alice'' answeringHost
     = handlePeerMessage firstRenderGameState 9000 (HOST_ACTION (OVERRIDE_SCORE ''p1'' 5000) ''c1'') ''peer-ctl'' answeringHost"
    using host_action_ignores_sender[of firstRenderGameState 9000 "OVERRIDE_SCORE ''p1'' 5000"
            "''p1''" "''peer-alice''" answeringHost "''c1''" "''peer-ctl''"]
    by blast
  have b: "map score (roster (fst (handlePeerMessage firstRenderGameState 9000
                               (HOST_ACTION (OVERRIDE_SCORE ''p1'' 5000) ''p1'') ''peer-alice'' answeringHost)))
       = [5000, 100]"
    by code_simp
  show ?thesis using a b by blast
qed

end
